theory Spec2Isabelle
  imports Main "HOL-Library.Sublist"
begin

section \<open>Data model of main.go\<close>

text \<open>
  The \<^verbatim>\<open>User\<close> struct is both the request payload of \<^verbatim>\<open>/register\<close> and the row type of
  the \<^verbatim>\<open>users\<close> table. \<^verbatim>\<open>ID\<close> is the primary key, \<^verbatim>\<open>Email\<close> carries the \<^verbatim>\<open>unique\<close>
  tag. Go strings are byte strings, modelled as \<^typ>\<open>string\<close>; the zero value of a field
  missing from the request is the empty string (and \<open>0\<close> for \<^verbatim>\<open>ID\<close>).
\<close>

record User =
  ID :: nat
  Name :: string
  Email :: string
  Password :: string

text \<open>The anonymous struct \<^verbatim>\<open>input\<close> that \<^verbatim>\<open>loginUser\<close> parses the body into.\<close>

record input =
  input_Email :: string
  input_Password :: string

text \<open>
  What a handler sends back: the status set by \<^verbatim>\<open>c.Status\<close> (200 when the handler calls
  \<^verbatim>\<open>c.JSON\<close> directly) and the \<^verbatim>\<open>fiber.Map\<close> passed to \<^verbatim>\<open>JSON\<close>, as a list of key/value
  pairs.
\<close>

record response =
  status :: nat
  body :: "(string \<times> string) list"

definition StatusOK :: nat where "StatusOK = 200"
definition StatusBadRequest :: nat where "StatusBadRequest = 400"
definition StatusUnauthorized :: nat where "StatusUnauthorized = 401"
definition StatusConflict :: nat where "StatusConflict = 409"
definition StatusInternalServerError :: nat where "StatusInternalServerError = 500"

section \<open>The collaborators: bcrypt and the database\<close>

text \<open>
  \<^verbatim>\<open>golang.org/x/crypto/bcrypt\<close> is a dependency, not part of the program, so the handlers
  take it as a parameter: a pair of functions with the signatures the handlers call.
  \<^verbatim>\<open>GenerateFromPassword\<close> reads its salt from the system's random source; that read is the
  first argument here. A Go \<^verbatim>\<open>error\<close> result is \<open>Inl\<close> (respectively \<open>Some\<close>), \<^verbatim>\<open>nil\<close> is
  \<open>Inr\<close> (respectively \<open>None\<close>).
\<close>

datatype bcrypt_error =
  ErrMismatchedHashAndPassword
  | ErrHashTooShort
  | ErrPasswordTooLong
  | InvalidHashPrefixError
  | ErrRandomSource

record bcrypt =
  GenerateFromPassword :: "string \<Rightarrow> string \<Rightarrow> nat \<Rightarrow> bcrypt_error + string"
  CompareHashAndPassword :: "string \<Rightarrow> string \<Rightarrow> bcrypt_error option"

definition DefaultCost :: nat where "DefaultCost = 10"

text \<open>
  The one property of the library the handlers rely on: a hash that
  \<^verbatim>\<open>GenerateFromPassword\<close> returned for a password is accepted by
  \<^verbatim>\<open>CompareHashAndPassword\<close> for that password.
\<close>

definition bcrypt_sound :: "bcrypt \<Rightarrow> bool" where
  "bcrypt_sound B \<longleftrightarrow>
     (\<forall>rnd p c h. GenerateFromPassword B rnd p c = Inr h
        \<longrightarrow> CompareHashAndPassword B h p = None)"

text \<open>
  The environment of one request: the bytes the random source hands to bcrypt, and whether
  the database call of this request fails for a reason of its own (I/O, locking).
\<close>

record env =
  rand_Reader :: string
  storage_fault :: bool

text \<open>
  The global \<^verbatim>\<open>db\<close>: the rows of the \<^verbatim>\<open>users\<close> table. \<^verbatim>\<open>db.Create\<close> inserts a row unless
  the unique index on \<^verbatim>\<open>email\<close> or the primary key rejects it; a zero \<^verbatim>\<open>ID\<close> is replaced by
  the next free one. \<^verbatim>\<open>db.Where("email = ?", e).First\<close> returns the matching row with the
  smallest primary key, or \<^verbatim>\<open>ErrRecordNotFound\<close>.
\<close>

datatype db_error = ErrRecordNotFound | ErrUniqueConstraint | ErrStorage

definition next_ID :: "User list \<Rightarrow> nat" where
  "next_ID rows = Suc (fold max (map ID rows) 0)"

definition db_Create :: "bool \<Rightarrow> User list \<Rightarrow> User \<Rightarrow> db_error + User list" where
  "db_Create fault rows u =
     (if fault then Inl ErrStorage
      else if Email u \<in> Email ` set rows then Inl ErrUniqueConstraint
      else if ID u \<noteq> 0 \<and> ID u \<in> ID ` set rows then Inl ErrUniqueConstraint
      else Inr (rows @ [u\<lparr>ID := (if ID u = 0 then next_ID rows else ID u)\<rparr>]))"

definition db_Where_First :: "bool \<Rightarrow> User list \<Rightarrow> string \<Rightarrow> db_error + User" where
  "db_Where_First fault rows e =
     (if fault then Inl ErrStorage
      else case filter (\<lambda>r. Email r = e) rows of
             [] \<Rightarrow> Inl ErrRecordNotFound
           | r # rs \<Rightarrow> Inr (fold (\<lambda>a b. if ID a < ID b then a else b) rs r))"

section \<open>The handlers\<close>

text \<open>
  \<^verbatim>\<open>c.BodyParser\<close> either fills the struct or returns an error; its result is the
  handler's last argument (\<open>None\<close> for the error). Each handler returns the response
  together with the table as it leaves it.
\<close>

definition registerUser ::
  "bcrypt \<Rightarrow> env \<Rightarrow> User list \<Rightarrow> User option \<Rightarrow> response \<times> User list" where
  "registerUser B ev db parsed =
     (case parsed of
        None \<Rightarrow>
          (\<lparr>status = StatusBadRequest,
            body = [(''error'', ''Failed to parse request body'')]\<rparr>, db)
      | Some user \<Rightarrow>
          if Name user = [] \<or> Email user = [] \<or> Password user = [] then
            (\<lparr>status = StatusBadRequest,
              body = [(''error'', ''Name, email, and password are required'')]\<rparr>, db)
          else
            (case GenerateFromPassword B (rand_Reader ev) (Password user) DefaultCost of
               Inl err \<Rightarrow>
                 (\<lparr>status = StatusInternalServerError,
                   body = [(''error'', ''Failed to hash password'')]\<rparr>, db)
             | Inr hashedPassword \<Rightarrow>
                 (case db_Create (storage_fault ev) db (user\<lparr>Password := hashedPassword\<rparr>) of
                    Inl err \<Rightarrow>
                      (\<lparr>status = StatusInternalServerError,
                        body = [(''error'', ''Failed to save user to database'')]\<rparr>, db)
                  | Inr db' \<Rightarrow>
                      (\<lparr>status = StatusOK,
                        body = [(''message'', ''User registered successfully'')]\<rparr>, db'))))"

definition loginUser ::
  "bcrypt \<Rightarrow> env \<Rightarrow> User list \<Rightarrow> input option \<Rightarrow> response \<times> User list" where
  "loginUser B ev db parsed =
     (case parsed of
        None \<Rightarrow>
          (\<lparr>status = StatusBadRequest,
            body = [(''error'', ''Failed to parse request body'')]\<rparr>, db)
      | Some inp \<Rightarrow>
          if input_Email inp = [] \<or> input_Password inp = [] then
            (\<lparr>status = StatusBadRequest,
              body = [(''error'', ''Email and password are required'')]\<rparr>, db)
          else
            (case db_Where_First (storage_fault ev) db (input_Email inp) of
               Inl err \<Rightarrow>
                 (\<lparr>status = StatusUnauthorized,
                   body = [(''error'', ''Invalid email or password'')]\<rparr>, db)
             | Inr user \<Rightarrow>
                 (case CompareHashAndPassword B (Password user) (input_Password inp) of
                    Some err \<Rightarrow>
                      (\<lparr>status = StatusUnauthorized,
                        body = [(''error'', ''Invalid email or password'')]\<rparr>, db)
                  | None \<Rightarrow>
                      (\<lparr>status = StatusOK,
                        body = [(''message'', ''Login successful'')]\<rparr>, db))))"

section \<open>An executable bcrypt for running the handlers\<close>

text \<open>
  To evaluate the handlers on concrete requests, an instance of the interface with the
  output layout of the library: the prefix \<^verbatim>\<open>$2a$10$\<close>, 22 salt characters, 31 digest
  characters, 60 in all; passwords over 72 bytes and hashes under 59 bytes are rejected.
  The Blowfish digest is replaced by a stand-in (\<open>digest\<close>), so this instance says nothing
  about the strength of bcrypt. The general theorems below hold for every implementation
  that is \<open>bcrypt_sound\<close>; this one only supplies concrete runs.
\<close>

definition digest :: "string \<Rightarrow> string \<Rightarrow> string" where
  "digest salt p = take 31 (rev p @ salt @ ''...............................'')"

definition sim_generate :: "string \<Rightarrow> string \<Rightarrow> nat \<Rightarrow> bcrypt_error + string" where
  "sim_generate rnd p c =
     (if 72 < length p then Inl ErrPasswordTooLong
      else if length rnd \<noteq> 22 then Inl ErrRandomSource
      else Inr (''$2a$10$'' @ rnd @ digest rnd p))"

definition sim_compare :: "string \<Rightarrow> string \<Rightarrow> bcrypt_error option" where
  "sim_compare h p =
     (if length h < 59 then Some ErrHashTooShort
      else if take 7 h \<noteq> ''$2a$10$'' then Some InvalidHashPrefixError
      else if drop 29 h = digest (take 22 (drop 7 h)) p then None
      else Some ErrMismatchedHashAndPassword)"

definition sim_bcrypt :: bcrypt where
  "sim_bcrypt = \<lparr>GenerateFromPassword = sim_generate, CompareHashAndPassword = sim_compare\<rparr>"

section \<open>Notions used by the properties\<close>

text \<open>The unique index on \<^verbatim>\<open>email\<close>: no two rows of the table share an address.\<close>

definition unique_Email :: "User list \<Rightarrow> bool" where
  "unique_Email rows \<longleftrightarrow> distinct (map Email rows)"

text \<open>
  A response body mentions a text when the text occurs, as a contiguous substring, in one
  of its keys or values.
\<close>

definition mentions :: "string \<Rightarrow> (string \<times> string) list \<Rightarrow> bool" where
  "mentions s b \<longleftrightarrow> list_ex (\<lambda>kv. sublist s (fst kv) \<or> sublist s (snd kv)) b"

text \<open>The \<^verbatim>\<open>fiber.Map\<close> literals that occur in the two handlers.\<close>

definition register_bodies :: "(string \<times> string) list list" where
  "register_bodies =
     [[(''error'', ''Failed to parse request body'')],
      [(''error'', ''Name, email, and password are required'')],
      [(''error'', ''Failed to hash password'')],
      [(''error'', ''Failed to save user to database'')],
      [(''message'', ''User registered successfully'')]]"

definition login_bodies :: "(string \<times> string) list list" where
  "login_bodies =
     [[(''error'', ''Failed to parse request body'')],
      [(''error'', ''Email and password are required'')],
      [(''error'', ''Invalid email or password'')],
      [(''message'', ''Login successful'')]]"

text \<open>The requests of the scenario in the specification's list of testable properties.\<close>

definition ann :: User where
  "ann = \<lparr>ID = 0, Name = ''Ann'', Email = ''ann@x.com'', Password = ''s3cret''\<rparr>"

definition ann_login :: input where
  "ann_login = \<lparr>input_Email = ''ann@x.com'', input_Password = ''s3cret''\<rparr>"

definition ann_wrong :: input where
  "ann_wrong = \<lparr>input_Email = ''ann@x.com'', input_Password = ''wrong''\<rparr>"

definition nobody_login :: input where
  "nobody_login = \<lparr>input_Email = ''nobody@x.com'', input_Password = ''s3cret''\<rparr>"

text \<open>The row that Ann's registration leaves in an empty table under \<open>sim_bcrypt\<close>, and
  a row whose stored password is not a bcrypt hash, as a table written by another
  program may hold.\<close>

definition ann_row :: User where
  "ann_row = \<lparr>ID = 1, Name = ''Ann'', Email = ''ann@x.com'',
     Password = ''$2a$10$abcdefghijklmnopqrstuvterc3sabcdefghijklmnopqrstuv...''\<rparr>"

definition legacy_row :: User where
  "legacy_row = \<lparr>ID = 1, Name = ''Ann'', Email = ''ann@x.com'', Password = ''s3cret''\<rparr>"

text \<open>An environment in which the random source delivers 22 salt characters and the
  database works, and one in which the database call fails.\<close>

definition env_ok :: env where
  "env_ok = \<lparr>rand_Reader = ''abcdefghijklmnopqrstuv'', storage_fault = False\<rparr>"

definition env_fault :: env where
  "env_fault = \<lparr>rand_Reader = ''abcdefghijklmnopqrstuv'', storage_fault = True\<rparr>"

section \<open>Facts about the collaborators' models\<close>

lemmas Status_defs =
  StatusOK_def StatusBadRequest_def StatusUnauthorized_def StatusConflict_def
  StatusInternalServerError_def

lemma length_digest: "length (digest salt p) = 31"
  by (simp add: digest_def)

lemma sim_bcrypt_sound: "bcrypt_sound sim_bcrypt"
  by (auto simp: bcrypt_sound_def sim_bcrypt_def sim_generate_def sim_compare_def
        length_digest split: if_splits)

lemma filter_absent:
  "e \<notin> Email ` set rows \<Longrightarrow> filter (\<lambda>r. Email r = e) rows = []"
  by (induction rows) auto

lemma filter_unique:
  "distinct (map Email rows) \<Longrightarrow> e \<in> Email ` set rows \<Longrightarrow>
     length (filter (\<lambda>r. Email r = e) rows) = 1"
  by (induction rows) (auto simp: filter_absent)

lemma db_Create_unique:
  "unique_Email rows \<Longrightarrow> db_Create fault rows u = Inr rows' \<Longrightarrow> unique_Email rows'"
  by (auto simp: db_Create_def unique_Email_def split: if_splits)

lemma registerUser_unique:
  "unique_Email db \<Longrightarrow> unique_Email (snd (registerUser B ev db req))"
  by (auto simp: registerUser_def split: option.splits sum.splits dest: db_Create_unique)

lemma loginUser_table: "snd (loginUser B ev db req) = db"
  by (simp add: loginUser_def split: option.splits sum.splits)

text \<open>Concrete runs under \<open>sim_bcrypt\<close>, shared by the examples below.\<close>

lemma register_ann:
  "registerUser sim_bcrypt env_ok [] (Some ann) =
     (\<lparr>status = 200, body = [(''message'', ''User registered successfully'')]\<rparr>, [ann_row])"
  by (simp add: registerUser_def sim_bcrypt_def env_ok_def ann_def ann_row_def
        sim_generate_def digest_def db_Create_def next_ID_def Status_defs DefaultCost_def)

lemma find_ann_row:
  "db_Where_First (storage_fault env_ok) [ann_row] (input_Email ann_wrong) = Inr ann_row"
  by (simp add: db_Where_First_def env_ok_def ann_wrong_def ann_row_def)

lemma ann_row_rejects_wrong:
  "CompareHashAndPassword sim_bcrypt (Password ann_row) (input_Password ann_wrong)
     = Some ErrMismatchedHashAndPassword"
  by (simp add: sim_bcrypt_def sim_compare_def digest_def ann_row_def ann_wrong_def)

lemma find_legacy_row:
  "db_Where_First (storage_fault env_ok) [legacy_row] (input_Email ann_wrong) = Inr legacy_row"
  by (simp add: db_Where_First_def env_ok_def ann_wrong_def legacy_row_def)

lemma legacy_row_malformed:
  "CompareHashAndPassword sim_bcrypt (Password legacy_row) p = Some ErrHashTooShort"
  by (simp add: sim_bcrypt_def sim_compare_def legacy_row_def)

lemma ann_wrong_nonempty:
  "input_Email ann_wrong \<noteq> []" "input_Password ann_wrong \<noteq> []"
  by (simp_all add: ann_wrong_def)

text \<open>The bodies of the responses are the literals of the handlers, all of them short.\<close>

lemma registerUser_body: "body (fst (registerUser B ev db req)) \<in> set register_bodies"
  by (simp add: registerUser_def register_bodies_def split: option.splits sum.splits)

lemma loginUser_body: "body (fst (loginUser B ev db req)) \<in> set login_bodies"
  by (simp add: loginUser_def login_bodies_def split: option.splits sum.splits)

lemma body_length:
  "b \<in> set (register_bodies @ login_bodies) \<Longrightarrow> kv \<in> set b \<Longrightarrow>
     length (fst kv) \<le> 38 \<and> length (snd kv) \<le> 38"
  by (auto simp: register_bodies_def login_bodies_def)

lemma long_not_mentioned:
  assumes "b \<in> set (register_bodies @ login_bodies)" and "38 < length s"
  shows "\<not> mentions s b"
proof
  assume "mentions s b"
  then obtain kv where kv: "kv \<in> set b" and sub: "sublist s (fst kv) \<or> sublist s (snd kv)"
    by (auto simp: mentions_def list_ex_iff)
  from sub have "length s \<le> length (fst kv) \<or> length s \<le> length (snd kv)"
    by (auto dest: sublist_length_le)
  with body_length [OF assms(1) kv] assms(2) show False by auto
qed

lemma passwords_not_mentioned:
  "\<forall>b \<in> set (register_bodies @ login_bodies).
     \<not> mentions ''s3cret'' b \<and> \<not> mentions ''wrong'' b"
  by code_simp

section \<open>Early exits: unparseable bodies and empty fields\<close>

text \<open>
  C10. When \<^verbatim>\<open>BodyParser\<close> fails, both handlers answer 400 with the body
  \<^verbatim>\<open>{"error":"Failed to parse request body"}\<close>. The answer is the same for every
  bcrypt implementation, environment and table, so no validation, hashing or database
  call has taken part in it, and the table is returned as it was.
\<close>

theorem C10_unparseable_body:
  "registerUser B ev db None =
     (\<lparr>status = 400, body = [(''error'', ''Failed to parse request body'')]\<rparr>, db)
   \<and> loginUser B ev db None =
     (\<lparr>status = 400, body = [(''error'', ''Failed to parse request body'')]\<rparr>, db)"
  by (simp add: registerUser_def loginUser_def StatusBadRequest_def)

text \<open>
  C6. A parsed registration request whose name, email or password is the empty string,
  and a parsed login request whose email or password is the empty string, is answered
  with 400 and the validation message. Emptiness is exact: nothing is trimmed. The
  answer does not depend on the table or on the environment, and the table is unchanged.
\<close>

theorem C6_empty_field_rejected:
  "(Name u = [] \<or> Email u = [] \<or> Password u = [] \<longrightarrow>
      registerUser B ev db (Some u) =
        (\<lparr>status = 400,
          body = [(''error'', ''Name, email, and password are required'')]\<rparr>, db))
   \<and> (input_Email i = [] \<or> input_Password i = [] \<longrightarrow>
      loginUser B ev db (Some i) =
        (\<lparr>status = 400, body = [(''error'', ''Email and password are required'')]\<rparr>, db))"
  by (simp add: registerUser_def loginUser_def StatusBadRequest_def)

theorem C6_empty_field_rejected_witness:
  "registerUser sim_bcrypt env_fault [ann] (Some (ann\<lparr>Password := []\<rparr>)) =
     (\<lparr>status = 400,
       body = [(''error'', ''Name, email, and password are required'')]\<rparr>, [ann])
   \<and> loginUser sim_bcrypt env_fault [ann] (Some (ann_login\<lparr>input_Email := []\<rparr>)) =
     (\<lparr>status = 400, body = [(''error'', ''Email and password are required'')]\<rparr>, [ann])"
  using C6_empty_field_rejected
    [of "ann\<lparr>Password := []\<rparr>" sim_bcrypt env_fault "[ann]" "ann_login\<lparr>input_Email := []\<rparr>"]
  by simp

section \<open>Registration followed by login\<close>

text \<open>
  C1. Let a registration request with non-empty name, email and password succeed
  (status 200), leaving the table \<open>db'\<close>. Then a login with the same email and password
  on \<open>db'\<close> is answered with 200 and \<^verbatim>\<open>{"message":"Login successful"}\<close>. This holds from
  every starting table, for every bcrypt implementation whose hashes verify against the
  password they were made from, provided the database lookup of the login itself does
  not fail.
\<close>

theorem C1_register_then_login:
  assumes snd: "bcrypt_sound B"
    and ne: "Name u \<noteq> []" "Email u \<noteq> []" "Password u \<noteq> []"
    and reg: "registerUser B ev db (Some u) = (r, db')" and ok: "status r = 200"
    and nf: "\<not> storage_fault ev'"
  shows "loginUser B ev' db' (Some \<lparr>input_Email = Email u, input_Password = Password u\<rparr>) =
     (\<lparr>status = 200, body = [(''message'', ''Login successful'')]\<rparr>, db')"
proof -
  from reg ok ne obtain h where
    gen: "GenerateFromPassword B (rand_Reader ev) (Password u) DefaultCost = Inr h"
    and cr: "db_Create (storage_fault ev) db (u\<lparr>Password := h\<rparr>) = Inr db'"
    by (auto simp: registerUser_def Status_defs split: sum.splits)
  from cr obtain row where fresh: "Email u \<notin> Email ` set db"
    and db': "db' = db @ [row]" and row: "Email row = Email u" "Password row = h"
    by (auto simp: db_Create_def split: if_splits)
  have "filter (\<lambda>r. Email r = Email u) db = []"
    using fresh by (rule filter_absent)
  then have look: "db_Where_First (storage_fault ev') db' (Email u) = Inr row"
    using nf row by (simp add: db_Where_First_def db')
  from snd gen have "CompareHashAndPassword B h (Password u) = None"
    by (auto simp: bcrypt_sound_def)
  with look ne row show ?thesis
    by (simp add: loginUser_def Status_defs)
qed

theorem C1_register_then_login_witness:
  "Name ann \<noteq> [] \<and> Email ann \<noteq> [] \<and> Password ann \<noteq> []
   \<and> status (fst (registerUser sim_bcrypt env_ok [] (Some ann))) = 200
   \<and> \<not> storage_fault env_ok
   \<and> loginUser sim_bcrypt env_ok (snd (registerUser sim_bcrypt env_ok [] (Some ann)))
        (Some ann_login) =
       (\<lparr>status = 200, body = [(''message'', ''Login successful'')]\<rparr>, [ann_row])"
proof -
  have ne: "Name ann \<noteq> []" "Email ann \<noteq> []" "Password ann \<noteq> []"
    by (simp_all add: ann_def)
  have nf: "\<not> storage_fault env_ok"
    by (simp add: env_ok_def)
  have inp: "\<lparr>input_Email = Email ann, input_Password = Password ann\<rparr> = ann_login"
    by (simp add: ann_def ann_login_def)
  show ?thesis
    using ne nf C1_register_then_login [OF sim_bcrypt_sound ne register_ann _ nf]
    by (simp add: register_ann inp)
qed

section \<open>Uniqueness of the email\<close>

text \<open>
  C2. From a table in which no two rows share an email, every registration request and
  every login request leaves a table with the same property. If the email of a
  registration request is already in the table, the response is not 200, the table is
  left exactly as it was, and it holds exactly one row with that email.
\<close>

theorem C2_duplicate_email_rejected:
  assumes inv: "unique_Email db"
  shows "unique_Email (snd (registerUser B ev db req))
    \<and> unique_Email (snd (loginUser B ev' db lreq))
    \<and> (\<forall>u. req = Some u \<and> Email u \<in> Email ` set db \<longrightarrow>
          status (fst (registerUser B ev db req)) \<noteq> 200
          \<and> snd (registerUser B ev db req) = db
          \<and> length (filter (\<lambda>r. Email r = Email u) (snd (registerUser B ev db req))) = 1)"
proof (intro conjI allI impI)
  show "unique_Email (snd (registerUser B ev db req))"
    using inv by (rule registerUser_unique)
  show "unique_Email (snd (loginUser B ev' db lreq))"
    using inv by (simp add: loginUser_table)
next
  fix u assume a: "req = Some u \<and> Email u \<in> Email ` set db"
  then have dup: "\<And>h d. db_Create (storage_fault ev) db (u\<lparr>Password := h\<rparr>) \<noteq> Inr d"
    by (simp add: db_Create_def)
  show "status (fst (registerUser B ev db req)) \<noteq> 200"
    using a dup by (auto simp: registerUser_def Status_defs split: sum.splits)
  show same: "snd (registerUser B ev db req) = db"
    using a dup by (auto simp: registerUser_def split: sum.splits)
  show "length (filter (\<lambda>r. Email r = Email u) (snd (registerUser B ev db req))) = 1"
    unfolding same using a inv by (simp add: filter_unique unique_Email_def)
qed

theorem C2_duplicate_email_rejected_witness:
  "unique_Email [ann_row] \<and> Email ann \<in> Email ` set [ann_row]
   \<and> status (fst (registerUser sim_bcrypt env_ok [ann_row] (Some ann))) \<noteq> 200
   \<and> snd (registerUser sim_bcrypt env_ok [ann_row] (Some ann)) = [ann_row]
   \<and> length (filter (\<lambda>r. Email r = Email ann)
        (snd (registerUser sim_bcrypt env_ok [ann_row] (Some ann)))) = 1
   \<and> unique_Email (snd (registerUser sim_bcrypt env_ok [ann_row] (Some ann)))
   \<and> unique_Email (snd (loginUser sim_bcrypt env_ok [ann_row] (Some ann_login)))"
  using C2_duplicate_email_rejected
    [where db = "[ann_row]" and B = sim_bcrypt and ev = env_ok and ev' = env_ok
      and req = "Some ann" and lreq = "Some ann_login"]
  by (simp add: unique_Email_def ann_def ann_row_def)

section \<open>Failed logins look alike\<close>

text \<open>
  C3. On any table, a login whose (non-empty) email is in no row and a login whose email
  is found but whose (non-empty) password the stored hash does not accept get the same
  response: status 401 with \<^verbatim>\<open>{"error":"Invalid email or password"}\<close>.
\<close>

theorem C3_unknown_email_like_wrong_password:
  assumes "input_Email i1 \<noteq> []" "input_Password i1 \<noteq> []"
    and "input_Email i2 \<noteq> []" "input_Password i2 \<noteq> []"
    and unknown: "input_Email i1 \<notin> Email ` set db"
    and known: "db_Where_First (storage_fault ev2) db (input_Email i2) = Inr r"
    and wrong: "CompareHashAndPassword B (Password r) (input_Password i2) \<noteq> None"
  shows "fst (loginUser B ev1 db (Some i1)) = fst (loginUser B ev2 db (Some i2))
    \<and> fst (loginUser B ev1 db (Some i1)) =
        \<lparr>status = 401, body = [(''error'', ''Invalid email or password'')]\<rparr>"
proof -
  have "\<exists>e. db_Where_First (storage_fault ev1) db (input_Email i1) = Inl e"
    using unknown by (simp add: db_Where_First_def filter_absent)
  then have 1: "fst (loginUser B ev1 db (Some i1)) =
        \<lparr>status = 401, body = [(''error'', ''Invalid email or password'')]\<rparr>"
    using assms(1,2) by (auto simp: loginUser_def Status_defs)
  have 2: "fst (loginUser B ev2 db (Some i2)) =
        \<lparr>status = 401, body = [(''error'', ''Invalid email or password'')]\<rparr>"
    using assms(3,4) known wrong by (auto simp: loginUser_def Status_defs)
  from 1 2 show ?thesis by simp
qed

theorem C3_unknown_email_like_wrong_password_witness:
  "input_Email nobody_login \<notin> Email ` set [ann_row]
   \<and> db_Where_First (storage_fault env_ok) [ann_row] (input_Email ann_wrong) = Inr ann_row
   \<and> CompareHashAndPassword sim_bcrypt (Password ann_row) (input_Password ann_wrong) \<noteq> None
   \<and> fst (loginUser sim_bcrypt env_ok [ann_row] (Some nobody_login)) =
       fst (loginUser sim_bcrypt env_ok [ann_row] (Some ann_wrong))
   \<and> fst (loginUser sim_bcrypt env_ok [ann_row] (Some nobody_login)) =
       \<lparr>status = 401, body = [(''error'', ''Invalid email or password'')]\<rparr>"
proof -
  have a: "input_Email nobody_login \<notin> Email ` set [ann_row]"
    by (simp add: nobody_login_def ann_row_def)
  have c: "CompareHashAndPassword sim_bcrypt (Password ann_row) (input_Password ann_wrong) \<noteq> None"
    by (simp add: ann_row_rejects_wrong)
  have ne: "input_Email nobody_login \<noteq> []" "input_Password nobody_login \<noteq> []"
    by (simp_all add: nobody_login_def)
  from a find_ann_row c
    C3_unknown_email_like_wrong_password [OF ne ann_wrong_nonempty a find_ann_row c, of env_ok]
  show ?thesis
    by blast
qed

section \<open>How failures are reported\<close>

text \<open>
  C4 as the specification words it asks for a conflict outcome, distinct from the one for
  storage failures, when the email is already registered. The handler has a single
  branch for every error of \<^verbatim>\<open>db.Create\<close>: registering Ann a second time is answered
  exactly as a registration during a database failure, with status 500, not 409.
\<close>

theorem C4_duplicate_is_not_conflict:
  "fst (registerUser sim_bcrypt env_ok
          (snd (registerUser sim_bcrypt env_ok [] (Some ann))) (Some ann))
     = \<lparr>status = 500, body = [(''error'', ''Failed to save user to database'')]\<rparr>
   \<and> fst (registerUser sim_bcrypt env_fault [] (Some ann))
     = \<lparr>status = 500, body = [(''error'', ''Failed to save user to database'')]\<rparr>
   \<and> status (fst (registerUser sim_bcrypt env_ok
        (snd (registerUser sim_bcrypt env_ok [] (Some ann))) (Some ann))) \<noteq> StatusConflict"
  by (simp add: register_ann)
    (simp add: registerUser_def sim_bcrypt_def env_ok_def env_fault_def ann_def ann_row_def
        sim_generate_def digest_def db_Create_def Status_defs DefaultCost_def)

text \<open>
  C4, amended. No response of either handler has status 409: a registration is answered
  with 200, 400 or 500, a login with 200, 400 or 401. For a registration request with
  non-empty fields: if hashing fails, the response is 500 with
  \<^verbatim>\<open>{"error":"Failed to hash password"}\<close>; if hashing succeeds and \<^verbatim>\<open>db.Create\<close> returns
  any error, the response is 500 with \<^verbatim>\<open>{"error":"Failed to save user to database"}\<close>.
  That is so in particular when the email is already in the table and when the database
  call fails, which therefore get the same response. The table is unchanged in every
  one of these cases.
\<close>

theorem C4_duplicate_is_internal_error:
  "status (fst (registerUser B ev db req)) \<in> {200, 400, 500}
   \<and> status (fst (registerUser B ev db req)) \<noteq> StatusConflict
   \<and> status (fst (loginUser B ev db lreq)) \<in> {200, 400, 401}
   \<and> status (fst (loginUser B ev db lreq)) \<noteq> StatusConflict
   \<and> (Name u \<noteq> [] \<and> Email u \<noteq> [] \<and> Password u \<noteq> [] \<longrightarrow>
        (\<forall>e. GenerateFromPassword B (rand_Reader ev) (Password u) DefaultCost = Inl e \<longrightarrow>
            registerUser B ev db (Some u) =
              (\<lparr>status = 500, body = [(''error'', ''Failed to hash password'')]\<rparr>, db))
      \<and> (\<forall>h e. GenerateFromPassword B (rand_Reader ev) (Password u) DefaultCost = Inr h
             \<and> db_Create (storage_fault ev) db (u\<lparr>Password := h\<rparr>) = Inl e \<longrightarrow>
            registerUser B ev db (Some u) =
              (\<lparr>status = 500, body = [(''error'', ''Failed to save user to database'')]\<rparr>, db))
      \<and> (\<forall>h. GenerateFromPassword B (rand_Reader ev) (Password u) DefaultCost = Inr h
             \<and> (Email u \<in> Email ` set db \<or> storage_fault ev) \<longrightarrow>
            registerUser B ev db (Some u) =
              (\<lparr>status = 500, body = [(''error'', ''Failed to save user to database'')]\<rparr>, db)))"
proof (intro conjI impI allI)
  show "status (fst (registerUser B ev db req)) \<in> {200, 400, 500}"
    by (simp add: registerUser_def Status_defs split: option.splits sum.splits)
  then show "status (fst (registerUser B ev db req)) \<noteq> StatusConflict"
    by (auto simp: StatusConflict_def)
  show "status (fst (loginUser B ev db lreq)) \<in> {200, 400, 401}"
    by (simp add: loginUser_def Status_defs split: option.splits sum.splits)
  then show "status (fst (loginUser B ev db lreq)) \<noteq> StatusConflict"
    by (auto simp: StatusConflict_def)
next
  fix e
  assume "Name u \<noteq> [] \<and> Email u \<noteq> [] \<and> Password u \<noteq> []"
    and "GenerateFromPassword B (rand_Reader ev) (Password u) DefaultCost = Inl e"
  then show "registerUser B ev db (Some u) =
      (\<lparr>status = 500, body = [(''error'', ''Failed to hash password'')]\<rparr>, db)"
    by (simp add: registerUser_def Status_defs)
next
  fix h e
  assume "Name u \<noteq> [] \<and> Email u \<noteq> [] \<and> Password u \<noteq> []"
    and "GenerateFromPassword B (rand_Reader ev) (Password u) DefaultCost = Inr h
           \<and> db_Create (storage_fault ev) db (u\<lparr>Password := h\<rparr>) = Inl e"
  then show "registerUser B ev db (Some u) =
      (\<lparr>status = 500, body = [(''error'', ''Failed to save user to database'')]\<rparr>, db)"
    by (simp add: registerUser_def Status_defs)
next
  fix h
  assume "Name u \<noteq> [] \<and> Email u \<noteq> [] \<and> Password u \<noteq> []"
    and "GenerateFromPassword B (rand_Reader ev) (Password u) DefaultCost = Inr h
           \<and> (Email u \<in> Email ` set db \<or> storage_fault ev)"
  then show "registerUser B ev db (Some u) =
      (\<lparr>status = 500, body = [(''error'', ''Failed to save user to database'')]\<rparr>, db)"
    by (auto simp: registerUser_def db_Create_def Status_defs)
qed

theorem C4_duplicate_is_internal_error_witness:
  "registerUser sim_bcrypt env_ok [ann_row] (Some ann) =
     (\<lparr>status = 500, body = [(''error'', ''Failed to save user to database'')]\<rparr>, [ann_row])
   \<and> status (fst (registerUser sim_bcrypt env_ok [ann_row] (Some ann))) \<noteq> StatusConflict
   \<and> status (fst (loginUser sim_bcrypt env_ok [ann_row] (Some ann_wrong))) \<noteq> StatusConflict
   \<and> db_Create (storage_fault env_ok) [ann_row]
        (ann\<lparr>ID := 1, Email := ''bob@x.com'', Password := Password ann_row\<rparr>)
        = Inl ErrUniqueConstraint
   \<and> registerUser sim_bcrypt env_ok [ann_row] (Some (ann\<lparr>ID := 1, Email := ''bob@x.com''\<rparr>)) =
     (\<lparr>status = 500, body = [(''error'', ''Failed to save user to database'')]\<rparr>, [ann_row])
   \<and> registerUser sim_bcrypt env_fault [] (Some ann) =
     (\<lparr>status = 500, body = [(''error'', ''Failed to save user to database'')]\<rparr>, [])
   \<and> registerUser sim_bcrypt (env_ok\<lparr>rand_Reader := []\<rparr>) [] (Some ann) =
     (\<lparr>status = 500, body = [(''error'', ''Failed to hash password'')]\<rparr>, [])"
proof -
  have pk: "db_Create (storage_fault env_ok) [ann_row]
        (ann\<lparr>ID := 1, Email := ''bob@x.com'', Password := Password ann_row\<rparr>)
        = Inl ErrUniqueConstraint"
    by (simp add: db_Create_def env_ok_def ann_def ann_row_def)
  have gen: "GenerateFromPassword sim_bcrypt (rand_Reader env_ok) ''s3cret'' DefaultCost
     = Inr (Password ann_row)"
    by (simp add: sim_bcrypt_def sim_generate_def digest_def env_ok_def ann_row_def)
  show ?thesis
    using pk gen
      C4_duplicate_is_internal_error [of sim_bcrypt env_ok "[ann_row]" "Some ann" "Some ann_wrong" ann]
      C4_duplicate_is_internal_error [of sim_bcrypt env_ok "[ann_row]" "Some ann" "Some ann_wrong"
        "ann\<lparr>ID := 1, Email := ''bob@x.com''\<rparr>"]
      C4_duplicate_is_internal_error [of sim_bcrypt env_fault "[]" "Some ann" "Some ann_wrong" ann]
      C4_duplicate_is_internal_error [of sim_bcrypt "env_ok\<lparr>rand_Reader := []\<rparr>" "[]" "Some ann" "Some ann_wrong" ann]
    by (simp add: ann_def ann_row_def env_ok_def env_fault_def sim_bcrypt_def sim_generate_def
        DefaultCost_def digest_def)
qed

text \<open>
  C5 as the specification words it asks for an internal error when the comparison fails
  for a reason other than a mismatch. The handler has a single branch for every error of
  \<^verbatim>\<open>CompareHashAndPassword\<close>: with a stored password that is too short to be a bcrypt
  hash, the comparison reports \<open>ErrHashTooShort\<close> and the login is answered with 401,
  not 500.
\<close>

theorem C5_malformed_hash_is_not_internal_error:
  "CompareHashAndPassword sim_bcrypt (Password legacy_row) (input_Password ann_login)
     = Some ErrHashTooShort
   \<and> loginUser sim_bcrypt env_ok [legacy_row] (Some ann_login) =
       (\<lparr>status = 401, body = [(''error'', ''Invalid email or password'')]\<rparr>, [legacy_row])
   \<and> status (fst (loginUser sim_bcrypt env_ok [legacy_row] (Some ann_login)))
       \<noteq> StatusInternalServerError"
  by (simp add: loginUser_def sim_bcrypt_def sim_compare_def env_ok_def legacy_row_def
        ann_login_def db_Where_First_def Status_defs)

text \<open>
  C5, amended. For a login request with non-empty fields whose email is found: whatever
  error \<^verbatim>\<open>CompareHashAndPassword\<close> returns, a mismatch or a malformed stored hash, the
  response is 401 with \<^verbatim>\<open>{"error":"Invalid email or password"}\<close>.
\<close>

theorem C5_compare_error_is_unauthorized:
  assumes "input_Email i \<noteq> []" "input_Password i \<noteq> []"
    and "db_Where_First (storage_fault ev) db (input_Email i) = Inr r"
    and "CompareHashAndPassword B (Password r) (input_Password i) = Some e"
  shows "loginUser B ev db (Some i) =
           (\<lparr>status = 401, body = [(''error'', ''Invalid email or password'')]\<rparr>, db)"
  using assms by (simp add: loginUser_def Status_defs)

theorem C5_compare_error_is_unauthorized_witness:
  "loginUser sim_bcrypt env_ok [ann_row] (Some ann_wrong) =
     (\<lparr>status = 401, body = [(''error'', ''Invalid email or password'')]\<rparr>, [ann_row])
   \<and> loginUser sim_bcrypt env_ok [legacy_row] (Some ann_wrong) =
     (\<lparr>status = 401, body = [(''error'', ''Invalid email or password'')]\<rparr>, [legacy_row])"
  using
    C5_compare_error_is_unauthorized [OF ann_wrong_nonempty find_ann_row ann_row_rejects_wrong]
    C5_compare_error_is_unauthorized [OF ann_wrong_nonempty find_legacy_row legacy_row_malformed]
  by simp

section \<open>The scenario of the specification\<close>

text \<open>
  C8. Start from a table without \<^verbatim>\<open>ann@x.com\<close> and \<^verbatim>\<open>nobody@x.com\<close>, with a bcrypt
  whose hashes verify, which hashes \<^verbatim>\<open>s3cret\<close> to \<open>h\<close> and does not accept \<^verbatim>\<open>wrong\<close> for
  \<open>h\<close>, and with a database that works during the registration and the correct login.
  Then: registering Ann gives 200 \<^verbatim>\<open>{"message":"User registered successfully"}\<close>;
  registering her again gives a status other than 200; logging in with \<^verbatim>\<open>s3cret\<close> gives
  200 \<^verbatim>\<open>{"message":"Login successful"}\<close>; logging in with \<^verbatim>\<open>wrong\<close>, or as
  \<^verbatim>\<open>nobody@x.com\<close>, gives 401 \<^verbatim>\<open>{"error":"Invalid email or password"}\<close>.
  Moreover the body of every response of either handler, on any input, is one of the
  handlers' literals; none of these contains \<^verbatim>\<open>s3cret\<close> or \<^verbatim>\<open>wrong\<close>, nor any text of
  more than 38 characters, such as a bcrypt hash with its 60.
\<close>

theorem C8_scenario:
  assumes snd: "bcrypt_sound B"
    and gen: "GenerateFromPassword B (rand_Reader ev1) ''s3cret'' DefaultCost = Inr h"
    and wrong: "CompareHashAndPassword B h ''wrong'' \<noteq> None"
    and nf: "\<not> storage_fault ev1" "\<not> storage_fault ev3"
    and fresh: "''ann@x.com'' \<notin> Email ` set db0" "''nobody@x.com'' \<notin> Email ` set db0"
    and db1: "db1 = snd (registerUser B ev1 db0 (Some ann))"
  shows "fst (registerUser B ev1 db0 (Some ann)) =
           \<lparr>status = 200, body = [(''message'', ''User registered successfully'')]\<rparr>
    \<and> status (fst (registerUser B ev2 db1 (Some ann))) \<noteq> 200
    \<and> fst (loginUser B ev3 db1 (Some ann_login)) =
           \<lparr>status = 200, body = [(''message'', ''Login successful'')]\<rparr>
    \<and> fst (loginUser B ev4 db1 (Some ann_wrong)) =
           \<lparr>status = 401, body = [(''error'', ''Invalid email or password'')]\<rparr>
    \<and> fst (loginUser B ev5 db1 (Some nobody_login)) =
           \<lparr>status = 401, body = [(''error'', ''Invalid email or password'')]\<rparr>
    \<and> (\<forall>B' ev db req. body (fst (registerUser B' ev db req)) \<in> set register_bodies)
    \<and> (\<forall>B' ev db req. body (fst (loginUser B' ev db req)) \<in> set login_bodies)
    \<and> (\<forall>b \<in> set (register_bodies @ login_bodies).
          \<not> mentions ''s3cret'' b \<and> \<not> mentions ''wrong'' b
          \<and> (\<forall>s. 38 < length s \<longrightarrow> \<not> mentions s b))"
proof -
  let ?row = "ann\<lparr>Password := h, ID := next_ID db0\<rparr>"
  have reg: "registerUser B ev1 db0 (Some ann) =
      (\<lparr>status = 200, body = [(''message'', ''User registered successfully'')]\<rparr>, db0 @ [?row])"
    using gen nf(1) fresh(1)
    by (simp add: registerUser_def db_Create_def ann_def Status_defs)
  then have db1': "db1 = db0 @ [?row]"
    by (simp add: db1)
  have look: "db_Where_First False db1 ''ann@x.com'' = Inr ?row"
    using fresh(1) by (simp add: db_Where_First_def db1' filter_absent ann_def)
  have none: "\<And>f. \<exists>e. db_Where_First f db1 ''nobody@x.com'' = Inl e"
    using fresh(2) by (simp add: db_Where_First_def db1' filter_absent ann_def)
  have okpw: "CompareHashAndPassword B h ''s3cret'' = None"
    using snd gen by (auto simp: bcrypt_sound_def)
  have 1: "status (fst (registerUser B ev2 db1 (Some ann))) \<noteq> 200"
    by (simp add: registerUser_def db_Create_def db1' ann_def Status_defs split: sum.splits)
  have 2: "fst (loginUser B ev3 db1 (Some ann_login)) =
           \<lparr>status = 200, body = [(''message'', ''Login successful'')]\<rparr>"
    using look okpw nf(2) by (simp add: loginUser_def ann_login_def Status_defs ann_def)
  have 3: "fst (loginUser B ev4 db1 (Some ann_wrong)) =
           \<lparr>status = 401, body = [(''error'', ''Invalid email or password'')]\<rparr>"
    using look wrong
    by (cases "storage_fault ev4")
      (auto simp: loginUser_def ann_wrong_def Status_defs ann_def db_Where_First_def)
  have 4: "fst (loginUser B ev5 db1 (Some nobody_login)) =
           \<lparr>status = 401, body = [(''error'', ''Invalid email or password'')]\<rparr>"
    using none [of "storage_fault ev5"]
    by (auto simp: loginUser_def nobody_login_def Status_defs)
  have 5: "\<forall>b \<in> set (register_bodies @ login_bodies).
          \<not> mentions ''s3cret'' b \<and> \<not> mentions ''wrong'' b
          \<and> (\<forall>s. 38 < length s \<longrightarrow> \<not> mentions s b)"
    using passwords_not_mentioned long_not_mentioned by blast
  from reg 1 2 3 4 5 registerUser_body loginUser_body show ?thesis
    by simp
qed

theorem C8_scenario_witness:
  "GenerateFromPassword sim_bcrypt (rand_Reader env_ok) ''s3cret'' DefaultCost
     = Inr (Password ann_row)
   \<and> CompareHashAndPassword sim_bcrypt (Password ann_row) ''wrong'' \<noteq> None
   \<and> fst (registerUser sim_bcrypt env_ok [] (Some ann)) =
        \<lparr>status = 200, body = [(''message'', ''User registered successfully'')]\<rparr>
   \<and> status (fst (registerUser sim_bcrypt env_ok [ann_row] (Some ann))) \<noteq> 200
   \<and> fst (loginUser sim_bcrypt env_ok [ann_row] (Some ann_login)) =
        \<lparr>status = 200, body = [(''message'', ''Login successful'')]\<rparr>
   \<and> fst (loginUser sim_bcrypt env_ok [ann_row] (Some ann_wrong)) =
        \<lparr>status = 401, body = [(''error'', ''Invalid email or password'')]\<rparr>
   \<and> fst (loginUser sim_bcrypt env_ok [ann_row] (Some nobody_login)) =
        \<lparr>status = 401, body = [(''error'', ''Invalid email or password'')]\<rparr>
   \<and> [(''message'', ''Login successful'')] \<in> set (register_bodies @ login_bodies)
   \<and> 38 < length (Password ann_row)
   \<and> \<not> mentions (Password ann_row) [(''message'', ''Login successful'')]
   \<and> \<not> mentions ''s3cret'' [(''message'', ''Login successful'')]"
proof -
  have gen: "GenerateFromPassword sim_bcrypt (rand_Reader env_ok) ''s3cret'' DefaultCost
     = Inr (Password ann_row)"
    by (simp add: sim_bcrypt_def sim_generate_def digest_def env_ok_def ann_row_def)
  have wrong: "CompareHashAndPassword sim_bcrypt (Password ann_row) ''wrong'' \<noteq> None"
    by (simp add: sim_bcrypt_def sim_compare_def digest_def ann_row_def)
  have nf: "\<not> storage_fault env_ok"
    by (simp add: env_ok_def)
  have fresh: "''ann@x.com'' \<notin> Email ` set []" "''nobody@x.com'' \<notin> Email ` set []"
    by simp_all
  have db1: "[ann_row] = snd (registerUser sim_bcrypt env_ok [] (Some ann))"
    by (simp add: register_ann)
  have mem: "[(''message'', ''Login successful'')] \<in> set (register_bodies @ login_bodies)"
    by (simp add: login_bodies_def)
  have len: "38 < length (Password ann_row)"
    by (simp add: ann_row_def)
  from gen wrong mem len
    C8_scenario [OF sim_bcrypt_sound gen wrong nf nf fresh db1, of env_ok env_ok env_ok]
  show ?thesis
    by blast
qed

end
